theory Spec2Isabelle
  imports Main "HOL-Library.Word" "HOL-Library.Multiset"
begin

unbundle bit_operations_syntax

section \<open>The dataset notebook: labels, split, keys\<close>

text \<open>
  The program is the notebook \<^verbatim>\<open>create_your_own_dataset.ipynb\<close>: it loads the Iris
  rows, shuffles and splits them, writes each split into a key-value store and reads
  batches back through a two-operator net. Every exception of the Python is a value
  of \<open>error\<close>; a function that can raise returns \<open>error + 'a\<close>.
\<close>

datatype error =
    KeyError | IndexError | ValueError | UnmodelledField
  | EncodingError | DecodingError | EmptyStoreError | StoreOpenError | StoreWriteError

subsection \<open>The label converter\<close>

text \<open>
  \<^verbatim>\<open>label_converter = lambda s : {'Iris-setosa':0, 'Iris-versicolor':1, 'Iris-virginica':2}[s]\<close>

  A dict literal indexed by \<open>s\<close>: a key that is not in the dict raises KeyError.
\<close>

definition label_dict :: "(string \<times> int) list" where
  "label_dict = [(''Iris-setosa'', 0), (''Iris-versicolor'', 1), (''Iris-virginica'', 2)]"

definition label_converter :: "string \<Rightarrow> error + int" where
  "label_converter s =
     (case map_of label_dict s of None \<Rightarrow> Inl KeyError | Some v \<Rightarrow> Inr v)"

subsection \<open>Shuffle and split\<close>

text \<open>
  \<^verbatim>\<open>
  random_index = np.random.permutation(150)
  features = features[random_index]
  labels = labels[random_index]
  train_features = features[:100]
  train_labels = labels[:100]
  test_features = features[100:]
  test_labels = labels[100:]
  \<close>
  \<open>np.random.permutation(150)\<close> returns the numbers 0..149 in some order; the order is
  the parameter \<open>random_index\<close>, and \<open>is_permutation 150\<close> is what numpy promises of
  it. Indexing an array with an index array raises IndexError when an index is out of
  range; the slices never raise.
\<close>

definition is_permutation :: "nat \<Rightarrow> nat list \<Rightarrow> bool" where
  "is_permutation n idx = (mset idx = mset [0..<n])"

definition index_rows :: "'a list \<Rightarrow> nat list \<Rightarrow> error + 'a list" where
  "index_rows xs idx =
     (if list_all (\<lambda>i. i < length xs) idx then Inr (map (\<lambda>i. xs ! i) idx)
      else Inl IndexError)"

record ('f, 'l) split =
  train_features :: "'f list"
  train_labels :: "'l list"
  test_features :: "'f list"
  test_labels :: "'l list"

definition train_test_split ::
  "nat list \<Rightarrow> 'f list \<Rightarrow> 'l list \<Rightarrow> error + ('f, 'l) split" where
  "train_test_split random_index features labels =
     (case index_rows features random_index of
        Inl e \<Rightarrow> Inl e
      | Inr fs \<Rightarrow>
          (case index_rows labels random_index of
             Inl e \<Rightarrow> Inl e
           | Inr ls \<Rightarrow>
               Inr \<lparr>train_features = take 100 fs, train_labels = take 100 ls,
                    test_features = drop 100 fs, test_labels = drop 100 ls\<rparr>))"

text \<open>The rows of a split, feature and label side by side.\<close>

definition train_rows :: "('f, 'l) split \<Rightarrow> ('f \<times> 'l) list" where
  "train_rows sp = zip (train_features sp) (train_labels sp)"

definition test_rows :: "('f, 'l) split \<Rightarrow> ('f \<times> 'l) list" where
  "test_rows sp = zip (test_features sp) (test_labels sp)"

subsection \<open>Keys: \<open>'train_%03d'.format(i)\<close>\<close>

text \<open>
  \<open>str.format\<close> looks for replacement fields in braces; every other character is
  copied, a percent sign included. \<open>{{\<close> and \<open>}}\<close> are escaped braces, \<open>{}\<close> takes
  the next positional argument (IndexError when there is none), a brace that stands
  alone is a ValueError. Fields with a name, an index or a format spec between the
  braces are not modelled (\<open>UnmodelledField\<close>); the notebook's template has no brace.
  Arguments arrive rendered by \<open>str\<close>.
\<close>

definition digit_char :: "nat \<Rightarrow> char" where
  "digit_char d = char_of (48 + d)"

fun py_str :: "nat \<Rightarrow> string" where
  "py_str n = (if n < 10 then [digit_char n] else py_str (n div 10) @ [digit_char (n mod 10)])"

declare py_str.simps [simp del]

definition prepend :: "char \<Rightarrow> error + string \<Rightarrow> error + string" where
  "prepend c r = (case r of Inl e \<Rightarrow> Inl e | Inr s \<Rightarrow> Inr (c # s))"

definition prepend_str :: "string \<Rightarrow> error + string \<Rightarrow> error + string" where
  "prepend_str a r = (case r of Inl e \<Rightarrow> Inl e | Inr s \<Rightarrow> Inr (a @ s))"

fun py_format :: "string \<Rightarrow> string list \<Rightarrow> error + string" where
  "py_format [] args = Inr []"
| "py_format [c] args =
     (if c = CHR ''{'' \<or> c = CHR ''}'' then Inl ValueError else Inr [c])"
| "py_format (c # d # cs) args =
     (if c = CHR ''{'' then
        (if d = CHR ''{'' then prepend CHR ''{'' (py_format cs args)
         else if d = CHR ''}'' then
           (case args of
              [] \<Rightarrow> Inl IndexError
            | a # rest \<Rightarrow> prepend_str a (py_format cs rest))
         else Inl UnmodelledField)
      else if c = CHR ''}'' then
        (if d = CHR ''}'' then prepend CHR ''}'' (py_format cs args)
         else Inl ValueError)
      else prepend c (py_format (d # cs) args))"

definition db_key :: "nat \<Rightarrow> error + string" where
  "db_key i = py_format ''train_%03d'' [py_str i]"

section \<open>Records: tensors and their bytes\<close>

text \<open>
  The notebook builds one record per row:
  \<^verbatim>\<open>
  feature_and_label = caffe2_pb2.TensorProtos()
  feature_and_label.protos.extend([
      utils.NumpyArrayToCaffe2Tensor(features[i]),
      utils.NumpyArrayToCaffe2Tensor(labels[i])])
  ... feature_and_label.SerializeToString()
  \<close>
  and prints one of them, as text and as bytes:
  \<^verbatim>\<open>
  protos { dims: 4  data_type: FLOAT  float_data: 5.4 ... }
  protos { data_type: INT32  int32_data: 1 }
  \<close>
  A float32 is its 32-bit pattern (no arithmetic is done on it), an int32 a 32-bit word
  read as two's complement.
\<close>

type_synonym byte = "8 word"
type_synonym bytes = "byte list"

datatype np_data = Float32 "32 word list" | Ints "int list"

text \<open>
  An array as the spec's TypedArray: a shape and the elements. numpy keeps the
  product of the shape equal to the number of elements; the record does not, so that
  a malformed row can be written down.
\<close>

record ndarray =
  shape :: "nat list"
  elems :: np_data

definition np_scalar :: "int \<Rightarrow> ndarray" where
  "np_scalar v = \<lparr>shape = [], elems = Ints [v]\<rparr>"

datatype DataType = FLOAT | INT32

record tensor_proto =
  dims :: "nat list"
  data_type :: DataType
  float_data :: "32 word list"
  int32_data :: "32 word list"

definition int32_ok :: "int \<Rightarrow> bool" where
  "int32_ok v = (- (2 ^ 31) \<le> v \<and> v < 2 ^ 31)"

text \<open>
  Modelled from the spec: \<open>utils.NumpyArrayToCaffe2Tensor\<close> is not in the notebook.
  Section 4.1: the record holds the array's shape, element type tag and raw values;
  it signals EncodingError when shape and length disagree. An integer that does not
  fit the INT32 tag is a malformed row as well.
\<close>

definition NumpyArrayToCaffe2Tensor :: "ndarray \<Rightarrow> error + tensor_proto" where
  "NumpyArrayToCaffe2Tensor arr =
     (case elems arr of
        Float32 vs \<Rightarrow>
          (if prod_list (shape arr) \<noteq> length vs then Inl EncodingError
           else Inr \<lparr>dims = shape arr, data_type = FLOAT, float_data = vs, int32_data = []\<rparr>)
      | Ints vs \<Rightarrow>
          (if prod_list (shape arr) \<noteq> length vs \<or> \<not> list_all int32_ok vs
           then Inl EncodingError
           else Inr \<lparr>dims = shape arr, data_type = INT32, float_data = [],
                     int32_data = map word_of_int vs\<rparr>))"

text \<open>
  Modelled from the spec: \<open>SerializeToString\<close> is not in the notebook either. The
  layout is the one of the bytes the notebook prints for its example record: per
  tensor the byte 0x0a and the length of its body; in the body each dimension as
  0x08 and a base-128 number, the type tag as 0x10 and 1 (FLOAT) or 2 (INT32), the
  floats as 0x1a, their byte count and four little-endian bytes each, the integers as
  0x22, their byte count and one base-128 number each (a negative one sign-extended
  to 64 bits).
\<close>

fun varint :: "nat \<Rightarrow> bytes" where
  "varint n = (if n < 128 then [of_nat n] else of_nat (128 + n mod 128) # varint (n div 128))"

declare varint.simps [simp del]

definition le32 :: "32 word \<Rightarrow> bytes" where
  "le32 w = [ucast w, ucast (drop_bit 8 w), ucast (drop_bit 16 w), ucast (drop_bit 24 w)]"

definition int32_varint :: "32 word \<Rightarrow> bytes" where
  "int32_varint w = varint (unat (scast w :: 64 word))"

definition type_tag :: "DataType \<Rightarrow> nat" where
  "type_tag t = (case t of FLOAT \<Rightarrow> 1 | INT32 \<Rightarrow> 2)"

definition length_delimited :: "byte \<Rightarrow> bytes \<Rightarrow> bytes" where
  "length_delimited tag body = tag # varint (length body) @ body"

definition packed :: "byte \<Rightarrow> bytes \<Rightarrow> bytes" where
  "packed tag body = (if body = [] then [] else length_delimited tag body)"

definition tensor_bytes :: "tensor_proto \<Rightarrow> bytes" where
  "tensor_bytes t =
     concat (map (\<lambda>d. 0x08 # varint d) (dims t))
     @ 0x10 # varint (type_tag (data_type t))
     @ packed 0x1a (concat (map le32 (float_data t)))
     @ packed 0x22 (concat (map int32_varint (int32_data t)))"

definition SerializeToString :: "tensor_proto list \<Rightarrow> bytes" where
  "SerializeToString protos = concat (map (\<lambda>t. length_delimited 0x0a (tensor_bytes t)) protos)"

text \<open>The record of one row, as section 4.1 names it.\<close>

definition encode :: "ndarray \<Rightarrow> int \<Rightarrow> error + bytes" where
  "encode feature label =
     (case NumpyArrayToCaffe2Tensor feature of
        Inl e \<Rightarrow> Inl e
      | Inr ft \<Rightarrow>
          (case NumpyArrayToCaffe2Tensor (np_scalar label) of
             Inl e \<Rightarrow> Inl e
           | Inr lt \<Rightarrow> Inr (SerializeToString [ft, lt])))"

subsection \<open>Reading a record back\<close>

text \<open>
  Modelled from the spec: the reader's decoder is part of the batch operator, which
  the notebook only calls. Section 4.3 makes it the inverse of 4.1 and has it signal
  DecodingError on anything else; it is written here as a parser of the layout above.
\<close>

fun parse_varint :: "bytes \<Rightarrow> (nat \<times> bytes) option" where
  "parse_varint [] = None"
| "parse_varint (b # bs) =
     (if b < 128 then Some (unat b, bs)
      else (case parse_varint bs of
              None \<Rightarrow> None
            | Some (n, rest) \<Rightarrow> Some (unat b - 128 + 128 * n, rest)))"

lemma parse_varint_shorter [termination_simp]:
  "parse_varint bs = Some (n, rest) \<Longrightarrow> length rest < length bs"
  by (induction bs arbitrary: n rest) (auto split: if_splits option.splits)

fun parse_dims :: "bytes \<Rightarrow> (nat list \<times> bytes) option" where
  "parse_dims [] = Some ([], [])"
| "parse_dims (b # bs) =
     (if b = 0x08 then
        (case parse_varint bs of
           None \<Rightarrow> None
         | Some (d, rest) \<Rightarrow>
             (case parse_dims rest of
                None \<Rightarrow> None
              | Some (ds, rest') \<Rightarrow> Some (d # ds, rest')))
      else Some ([], b # bs))"

function parse_varints :: "bytes \<Rightarrow> nat list option" where
  "parse_varints [] = Some []"
| "parse_varints (b # bs) =
     (case parse_varint (b # bs) of
        None \<Rightarrow> None
      | Some (n, rest) \<Rightarrow> map_option (Cons n) (parse_varints rest))"
  by pat_completeness auto
termination
  by (relation "measure length") (auto simp del: parse_varint.simps dest: parse_varint_shorter)

definition from_le32 :: "byte \<Rightarrow> byte \<Rightarrow> byte \<Rightarrow> byte \<Rightarrow> 32 word" where
  "from_le32 a b c d =
     ucast a OR push_bit 8 (ucast b) OR push_bit 16 (ucast c) OR push_bit 24 (ucast d)"

fun parse_floats :: "bytes \<Rightarrow> 32 word list option" where
  "parse_floats [] = Some []"
| "parse_floats (a # b # c # d # bs) = map_option (Cons (from_le32 a b c d)) (parse_floats bs)"
| "parse_floats _ = None"

text \<open>
  An optional packed field: when the next byte is \<open>tag\<close>, its length and that many
  bytes are taken; otherwise the field is absent and nothing is consumed.
\<close>

definition parse_packed :: "byte \<Rightarrow> bytes \<Rightarrow> (bytes \<times> bytes) option" where
  "parse_packed tag bs =
     (case bs of
        [] \<Rightarrow> Some ([], [])
      | b # r \<Rightarrow>
          (if b = tag then
             (case parse_varint r of
                None \<Rightarrow> None
              | Some (n, rest) \<Rightarrow>
                  (if n = 0 \<or> length rest < n then None else Some (take n rest, drop n rest)))
           else Some ([], bs)))"

definition parse_type :: "bytes \<Rightarrow> (DataType \<times> bytes) option" where
  "parse_type bs =
     (case bs of
        [] \<Rightarrow> None
      | b # r \<Rightarrow>
          (if b = 0x10 then
             (case parse_varint r of
                None \<Rightarrow> None
              | Some (n, rest) \<Rightarrow>
                  (if n = 1 then Some (FLOAT, rest)
                   else if n = 2 then Some (INT32, rest) else None))
           else None))"

definition parse_tensor :: "bytes \<Rightarrow> tensor_proto option" where
  "parse_tensor bs =
     (case parse_dims bs of
        None \<Rightarrow> None
      | Some (ds, r1) \<Rightarrow>
     (case parse_type r1 of
        None \<Rightarrow> None
      | Some (t, r2) \<Rightarrow>
     (case parse_packed 0x1a r2 of
        None \<Rightarrow> None
      | Some (fbytes, r3) \<Rightarrow>
     (case parse_packed 0x22 r3 of
        None \<Rightarrow> None
      | Some (ibytes, r4) \<Rightarrow>
     (case (parse_floats fbytes, parse_varints ibytes) of
        (Some fs, Some ns) \<Rightarrow>
          (if r4 = [] then
             Some \<lparr>dims = ds, data_type = t, float_data = fs,
                   int32_data = map of_nat ns\<rparr>
           else None)
      | _ \<Rightarrow> None)))))"

function ParseFromString :: "bytes \<Rightarrow> tensor_proto list option" where
  "ParseFromString [] = Some []"
| "ParseFromString (b # bs) =
     (if b = 0x0a then
        (case parse_varint bs of
           None \<Rightarrow> None
         | Some (n, rest) \<Rightarrow>
             (if length rest < n then None
              else (case parse_tensor (take n rest) of
                      None \<Rightarrow> None
                    | Some t \<Rightarrow> map_option (Cons t) (ParseFromString (drop n rest)))))
      else None)"
  by pat_completeness auto
termination
  by (relation "measure length") (auto dest: parse_varint_shorter)

definition Caffe2TensorToNumpyArray :: "tensor_proto \<Rightarrow> error + ndarray" where
  "Caffe2TensorToNumpyArray t =
     (case data_type t of
        FLOAT \<Rightarrow>
          (if int32_data t \<noteq> [] \<or> prod_list (dims t) \<noteq> length (float_data t)
           then Inl DecodingError
           else Inr \<lparr>shape = dims t, elems = Float32 (float_data t)\<rparr>)
      | INT32 \<Rightarrow>
          (if float_data t \<noteq> [] \<or> prod_list (dims t) \<noteq> length (int32_data t)
           then Inl DecodingError
           else Inr \<lparr>shape = dims t, elems = Ints (map sint (int32_data t))\<rparr>))"

text \<open>
  A record of this dataset holds two tensors: a float feature array and one integer.
\<close>

definition decode :: "bytes \<Rightarrow> error + (ndarray \<times> int)" where
  "decode bs =
     (case ParseFromString bs of
        Some [ft, lt] \<Rightarrow>
          (case (Caffe2TensorToNumpyArray ft, Caffe2TensorToNumpyArray lt) of
             (Inr feature, Inr label) \<Rightarrow>
               (case (elems feature, shape label, elems label) of
                  (Float32 vs, [], Ints [v]) \<Rightarrow> Inr (feature, v)
                | _ \<Rightarrow> Inl DecodingError)
           | _ \<Rightarrow> Inl DecodingError)
      | _ \<Rightarrow> Inl DecodingError)"

section \<open>Writing a dataset\<close>

text \<open>
  Modelled from the spec: the storage engine (\<open>core.C.create_db\<close> and its
  transactions) is not in the notebook. Section 3: a store is a mapping from an opaque
  string key to a byte string; it is created empty when it is opened for writing, is
  populated by sequential \<open>put\<close> calls inside one transaction, and is finalised when
  the transaction and then the handle are released. A put under a key the store holds
  already replaces the value there, as in any mapping, and a put reaches the store when
  it is made (section 8: the rows put before a failure stay). \<open>put_calls\<close> is not part
  of the store: it lists the calls the writer made on the transaction, in order.
  Opening and putting never fail here.
\<close>

type_synonym store = "string \<Rightarrow> bytes option"

record db_world =
  files :: "string \<Rightarrow> store option"
  db_path :: string
  put_calls :: "(string \<times> bytes) list"
  transaction_live :: bool
  db_live :: bool

definition create_db :: "string \<Rightarrow> string \<Rightarrow> (string \<Rightarrow> store option) \<Rightarrow> db_world" where
  "create_db db_type db_name fs =
     \<lparr>files = fs(db_name \<mapsto> Map.empty), db_path = db_name, put_calls = [],
      transaction_live = False, db_live = True\<rparr>"

definition new_transaction :: "db_world \<Rightarrow> db_world" where
  "new_transaction w = w\<lparr>transaction_live := True\<rparr>"

definition put :: "string \<Rightarrow> bytes \<Rightarrow> db_world \<Rightarrow> db_world" where
  "put k v w =
     w\<lparr>files := (files w)(db_path w \<mapsto>
            (case files w (db_path w) of None \<Rightarrow> Map.empty | Some m \<Rightarrow> m)(k \<mapsto> v)),
       put_calls := put_calls w @ [(k, v)]\<rparr>"

definition del_transaction :: "db_world \<Rightarrow> db_world" where
  "del_transaction w = w\<lparr>transaction_live := False\<rparr>"

definition del_db :: "db_world \<Rightarrow> db_world" where
  "del_db w = w\<lparr>db_live := False\<rparr>"

definition getitem :: "'a list \<Rightarrow> nat \<Rightarrow> error + 'a" where
  "getitem xs i = (if i < length xs then Inr (xs ! i) else Inl IndexError)"

text \<open>
  \<^verbatim>\<open>
  def write_db(db_type, db_name, features, labels):
      db = core.C.create_db(db_type, db_name, core.C.Mode.write)
      transaction = db.new_transaction()
      for i in range(features.shape[0]):
          feature_and_label = caffe2_pb2.TensorProtos()
          feature_and_label.protos.extend([
              utils.NumpyArrayToCaffe2Tensor(features[i]),
              utils.NumpyArrayToCaffe2Tensor(labels[i])])
          transaction.put(
              'train_%03d'.format(i),
              feature_and_label.SerializeToString())
      # Close the transaction, and then close the db.
      del transaction
      del db
  \<close>
  The loop body runs in the source's order; an exception leaves the loop and the
  function at once, with the world as it is then: the two \<open>del\<close> statements run only
  after a loop that finished. The result is the exception (\<open>None\<close> for a normal
  return) and the world.
\<close>

fun write_rows ::
  "ndarray list \<Rightarrow> int list \<Rightarrow> nat list \<Rightarrow> db_world \<Rightarrow> error option \<times> db_world" where
  "write_rows features labels [] w = (None, w)"
| "write_rows features labels (i # rest) w =
     (case getitem features i of
        Inl e \<Rightarrow> (Some e, w)
      | Inr f \<Rightarrow>
     (case NumpyArrayToCaffe2Tensor f of
        Inl e \<Rightarrow> (Some e, w)
      | Inr ft \<Rightarrow>
     (case getitem labels i of
        Inl e \<Rightarrow> (Some e, w)
      | Inr l \<Rightarrow>
     (case NumpyArrayToCaffe2Tensor (np_scalar l) of
        Inl e \<Rightarrow> (Some e, w)
      | Inr lt \<Rightarrow>
     (case db_key i of
        Inl e \<Rightarrow> (Some e, w)
      | Inr k \<Rightarrow> write_rows features labels rest (put k (SerializeToString [ft, lt]) w))))))"

definition write_db ::
  "string \<Rightarrow> string \<Rightarrow> ndarray list \<Rightarrow> int list \<Rightarrow> (string \<Rightarrow> store option)
   \<Rightarrow> error option \<times> db_world" where
  "write_db db_type db_name features labels fs =
     (let db = create_db db_type db_name fs;
          transaction = new_transaction db
      in case write_rows features labels [0..<length features] transaction of
           (Some e, w) \<Rightarrow> (Some e, w)
         | (None, w) \<Rightarrow> (None, del_db (del_transaction w)))"

section \<open>The rows of the dataset\<close>

text \<open>
  A valid input of the encoder: a non-empty one-dimensional float32 array and an
  integer that the INT32 tag can hold.
\<close>

definition valid_pair :: "ndarray \<Rightarrow> int \<Rightarrow> bool" where
  "valid_pair feature label =
     ((case elems feature of
         Float32 vs \<Rightarrow> vs \<noteq> [] \<and> shape feature = [length vs]
       | Ints vs \<Rightarrow> False)
      \<and> int32_ok label)"

text \<open>
  The bytes \<open>encode\<close> returns for a row (nothing when it fails), and whether it
  returns any: the vocabulary of the statements below.
\<close>

definition row_record :: "ndarray \<Rightarrow> int \<Rightarrow> bytes" where
  "row_record feature label = (case encode feature label of Inl e \<Rightarrow> [] | Inr bs \<Rightarrow> bs)"

definition encodes :: "ndarray \<Rightarrow> int \<Rightarrow> bool" where
  "encodes feature label = (case encode feature label of Inl e \<Rightarrow> False | Inr bs \<Rightarrow> True)"

text \<open>
  Two rows of the data: the record the notebook prints (5.4, 3.0, 4.5, 1.5 with label
  1) and the first line of the raw file (5.1, 3.5, 1.4, 0.2, Iris-setosa).
\<close>

definition printed_feature :: ndarray where
  "printed_feature = \<lparr>shape = [4], elems = Float32 [0x40ACCCCD, 0x40400000, 0x40900000, 0x3FC00000]\<rparr>"

definition first_feature :: ndarray where
  "first_feature = \<lparr>shape = [4], elems = Float32 [0x40A33333, 0x40600000, 0x3FB33333, 0x3E4CCCCD]\<rparr>"

text \<open>
  The bytes the notebook prints for that record (\<open>SerializeToString\<close> of the printed
  tensors): 0x0a, the length 22 and the feature tensor, 0x0a, the length 5 and the
  label tensor. The printout shows three bytes of the floats as replacement
  characters; they are taken from the float32 patterns of 5.4, 4.5 and 1.5.
\<close>

definition printed_bytes :: bytes where
  "printed_bytes =
     [0x0a, 0x16, 0x08, 0x04, 0x10, 0x01, 0x1a, 0x10,
      0xcd, 0xcc, 0xac, 0x40, 0x00, 0x00, 0x40, 0x40,
      0x00, 0x00, 0x90, 0x40, 0x00, 0x00, 0xc0, 0x3f,
      0x0a, 0x05, 0x10, 0x02, 0x22, 0x01, 0x01]"

section \<open>Properties of the label converter and the split\<close>

lemma index_rows_ok:
  "\<forall>i\<in>set idx. i < length xs \<Longrightarrow> index_rows xs idx = Inr (map (\<lambda>i. xs ! i) idx)"
  by (simp add: index_rows_def list_all_iff)

lemma is_permutation_set: "is_permutation n idx \<Longrightarrow> set idx = {0..<n}"
  unfolding is_permutation_def by (metis mset_eq_setD set_upt)

lemma is_permutation_length: "is_permutation n idx \<Longrightarrow> length idx = n"
  unfolding is_permutation_def by (metis mset_eq_length length_upt diff_zero)

lemma is_permutation_distinct: "is_permutation n idx \<Longrightarrow> distinct idx"
  unfolding is_permutation_def by (metis distinct_upt mset_eq_imp_distinct_iff)

lemma map_nth_pair_upt:
  "length xs = n \<Longrightarrow> length ys = n \<Longrightarrow> map (\<lambda>i. (xs ! i, ys ! i)) [0..<n] = zip xs ys"
  by (rule nth_equalityI) simp_all

lemma mset_index_pairs:
  assumes "is_permutation n idx" "length xs = n" "length ys = n"
  shows "mset (map (\<lambda>i. (xs ! i, ys ! i)) idx) = mset (zip xs ys)"
proof -
  have "mset (map (\<lambda>i. (xs ! i, ys ! i)) idx) = image_mset (\<lambda>i. (xs ! i, ys ! i)) (mset idx)"
    by simp
  also have "\<dots> = image_mset (\<lambda>i. (xs ! i, ys ! i)) (mset [0..<n])"
    using assms(1) by (simp add: is_permutation_def)
  also have "\<dots> = mset (map (\<lambda>i. (xs ! i, ys ! i)) [0..<n])"
    by simp
  also have "\<dots> = mset (zip xs ys)"
    using assms(2,3) by (simp add: map_nth_pair_upt)
  finally show ?thesis .
qed

lemma zip_map_nth:
  "zip (map (\<lambda>i. xs ! i) idx) (map (\<lambda>i. ys ! i) idx) = map (\<lambda>i. (xs ! i, ys ! i)) idx"
  by (induction idx) simp_all


section \<open>The record codec\<close>


lemma unat_byte: "n < 256 \<Longrightarrow> unat (of_nat n :: 8 word) = n"
  by (simp add: unat_of_nat)

lemma varint_nonempty: "varint n \<noteq> []"
  by (subst varint.simps) simp

lemma parse_varint_varint: "parse_varint (varint n @ rest) = Some (n, rest)"
proof (induction n rule: varint.induct)
  case (1 n)
  show ?case
  proof (cases "n < 128")
    case True
    then have "(of_nat n :: 8 word) < 128"
      by (simp add: word_less_nat_alt unat_byte)
    with True show ?thesis
      by (subst varint.simps) (simp add: unat_byte)
  next
    case False
    have lt: "128 + n mod 128 < 256" by simp
    have u: "unat (of_nat (128 + n mod 128) :: 8 word) = 128 + n mod 128"
      using lt by (rule unat_byte)
    have ge: "\<not> (of_nat (128 + n mod 128) :: 8 word) < 128"
      by (simp only: word_less_nat_alt u) simp
    have "varint n = of_nat (128 + n mod 128) # varint (n div 128)"
      using False by (subst varint.simps) simp
    then show ?thesis
      using 1 [OF False] ge u by simp
  qed
qed

lemma from_le32_le32:
  "from_le32 (ucast w) (ucast (drop_bit 8 w)) (ucast (drop_bit 16 w)) (ucast (drop_bit 24 w)) = w"
  unfolding from_le32_def
proof (rule bit_word_eqI)
  fix n assume "n < LENGTH(32)"
  then have n: "n < 32" by simp
  consider "n < 8" | "8 \<le> n" "n < 16" | "16 \<le> n" "n < 24" | "24 \<le> n" "n < 32"
    using n by linarith
  then show "bit (ucast (ucast w :: 8 word) OR push_bit 8 (ucast (ucast (drop_bit 8 w) :: 8 word)) OR
           push_bit 16 (ucast (ucast (drop_bit 16 w) :: 8 word)) OR push_bit 24 (ucast (ucast (drop_bit 24 w):: 8 word)) :: 32 word) n = bit w n"
    by cases (auto simp add: bit_simps)
qed

lemma int32_back: "of_nat (unat (scast (w :: 32 word) :: 64 word)) = w"
  by (rule bit_word_eqI) (auto simp add: bit_simps)

lemma sint_int32: "int32_ok v \<Longrightarrow> sint (word_of_int v :: 32 word) = v"
  unfolding int32_ok_def by (simp add: sint_sbintrunc' signed_take_bit_int_eq_self)

lemma parse_floats_le32: "parse_floats (concat (map le32 ws)) = Some ws"
  by (induction ws) (simp_all add: le32_def from_le32_le32)

lemma parse_varints_step:
  "parse_varints (varint n @ rest) = map_option (Cons n) (parse_varints rest)"
proof (cases "varint n")
  case Nil
  then show ?thesis using varint_nonempty by blast
next
  case (Cons b bs)
  have "parse_varint (b # bs @ rest) = Some (n, rest)"
    using parse_varint_varint [of n rest] Cons by simp
  then show ?thesis
    using Cons by (simp del: parse_varint.simps)
qed

lemma parse_varints_int32:
  "parse_varints (concat (map int32_varint ws)) = Some (map (\<lambda>w. unat (scast w :: 64 word)) ws)"
  by (induction ws) (simp_all add: int32_varint_def parse_varints_step)

lemma parse_dims_dims:
  "parse_dims (concat (map (\<lambda>d. 0x08 # varint d) ds) @ 0x10 # rest) = Some (ds, 0x10 # rest)"
  by (induction ds) (simp_all add: parse_varint_varint)

lemma parse_type_tag: "parse_type (0x10 # varint (type_tag t) @ rest) = Some (t, rest)"
  by (cases t) (simp_all add: parse_type_def parse_varint_varint type_tag_def)

lemma parse_packed_present:
  "body \<noteq> [] \<Longrightarrow> parse_packed tag (packed tag body @ rest) = Some (body, rest)"
  by (simp add: parse_packed_def packed_def length_delimited_def parse_varint_varint)

lemma parse_packed_floats:
  "parse_packed 0x1a (packed 0x1a fb @ packed 0x22 ib) = Some (fb, packed 0x22 ib)"
proof (cases "fb = []")
  case False
  then show ?thesis by (rule parse_packed_present)
next
  case True
  show ?thesis
  proof (cases "ib = []")
    case True
    with \<open>fb = []\<close> show ?thesis by (simp add: parse_packed_def packed_def)
  next
    case False
    with \<open>fb = []\<close> show ?thesis
      by (simp add: parse_packed_def packed_def length_delimited_def)
  qed
qed

lemma parse_packed_ints: "parse_packed 0x22 (packed 0x22 ib) = Some (ib, [])"
proof (cases "ib = []")
  case True
  then show ?thesis by (simp add: parse_packed_def packed_def)
next
  case False
  then show ?thesis using parse_packed_present [of ib "0x22" "[]"] by simp
qed

lemma int32_list_back:
  "map (of_nat \<circ> (\<lambda>w. unat (scast w :: 64 word))) ws = (ws :: 32 word list)"
  by (induction ws) (simp_all only: list.map o_apply int32_back)

lemma parse_tensor_bytes: "parse_tensor (tensor_bytes t) = Some t"
proof -
  let ?fb = "concat (map le32 (float_data t))"
  let ?ib = "concat (map int32_varint (int32_data t))"
  have 1: "parse_dims (tensor_bytes t)
      = Some (dims t, 0x10 # varint (type_tag (data_type t)) @ packed 0x1a ?fb @ packed 0x22 ?ib)"
    unfolding tensor_bytes_def by (rule parse_dims_dims)
  have 2: "parse_type (0x10 # varint (type_tag (data_type t)) @ packed 0x1a ?fb @ packed 0x22 ?ib)
      = Some (data_type t, packed 0x1a ?fb @ packed 0x22 ?ib)"
    by (rule parse_type_tag)
  have 3: "map (of_nat \<circ> (\<lambda>w. unat (scast w :: 64 word))) (int32_data t) = int32_data t"
    by (rule int32_list_back)
  show ?thesis
    unfolding parse_tensor_def
    by (simp add: 1 2 3 parse_packed_floats parse_packed_ints parse_floats_le32 parse_varints_int32)
qed

lemma ParseFromString_Serialize: "ParseFromString (SerializeToString ts) = Some ts"
proof (induction ts)
  case Nil
  then show ?case by (simp add: SerializeToString_def)
next
  case (Cons t ts)
  have "SerializeToString (t # ts)
      = 0x0a # varint (length (tensor_bytes t)) @ (tensor_bytes t @ SerializeToString ts)"
    by (simp add: SerializeToString_def length_delimited_def)
  then show ?case
    using Cons by (simp add: parse_varint_varint parse_tensor_bytes)
qed

lemma tensor_back:
  "NumpyArrayToCaffe2Tensor arr = Inr t \<Longrightarrow> Caffe2TensorToNumpyArray t = Inr arr"
proof (cases "elems arr")
  case (Float32 vs)
  assume "NumpyArrayToCaffe2Tensor arr = Inr t"
  with Float32 show ?thesis
    by (auto simp add: NumpyArrayToCaffe2Tensor_def Caffe2TensorToNumpyArray_def split: if_splits)
next
  case (Ints vs)
  assume a: "NumpyArrayToCaffe2Tensor arr = Inr t"
  with Ints have ok: "list_all int32_ok vs"
    by (auto simp add: NumpyArrayToCaffe2Tensor_def split: if_splits)
  then have "map sint (map word_of_int vs :: 32 word list) = vs"
    by (induction vs) (simp_all add: sint_int32)
  with a Ints show ?thesis
    by (auto simp add: NumpyArrayToCaffe2Tensor_def Caffe2TensorToNumpyArray_def split: if_splits)
qed

lemma decode_encode:
  assumes "encode feature label = Inr bs" and "elems feature = Float32 vs"
  shows "decode bs = Inr (feature, label)"
proof -
  from assms(1) obtain ft lt where
    ft: "NumpyArrayToCaffe2Tensor feature = Inr ft" and
    lt: "NumpyArrayToCaffe2Tensor (np_scalar label) = Inr lt" and
    bs: "bs = SerializeToString [ft, lt]"
    by (auto simp add: encode_def split: sum.splits)
  have p: "ParseFromString bs = Some [ft, lt]"
    unfolding bs by (rule ParseFromString_Serialize)
  have f: "Caffe2TensorToNumpyArray ft = Inr feature"
    using ft by (rule tensor_back)
  have l: "Caffe2TensorToNumpyArray lt = Inr (np_scalar label)"
    using lt by (rule tensor_back)
  show ?thesis
    by (simp add: decode_def p f l assms(2) np_scalar_def)
qed

section \<open>The writer\<close>

lemma encodes_record: "encodes f l \<Longrightarrow> encode f l = Inr (row_record f l)"
  by (simp add: encodes_def row_record_def split: sum.splits)

lemma valid_pair_encodes: "valid_pair f l \<Longrightarrow> encodes f l"
  by (auto simp add: valid_pair_def encodes_def encode_def NumpyArrayToCaffe2Tensor_def
      np_scalar_def split: np_data.splits)

lemma db_key_constant: "db_key i = Inr ''train_%03d''"
  by (simp add: db_key_def prepend_def)

lemma write_rows_step:
  assumes "i < length features" "i < length labels" "encodes (features ! i) (labels ! i)"
  shows "write_rows features labels (i # rest) w
      = write_rows features labels rest
          (put ''train_%03d'' (row_record (features ! i) (labels ! i)) w)"
proof -
  from assms(3) obtain ft lt where
    ft: "NumpyArrayToCaffe2Tensor (features ! i) = Inr ft" and
    lt: "NumpyArrayToCaffe2Tensor (np_scalar (labels ! i)) = Inr lt"
    by (auto simp add: encodes_def encode_def split: sum.splits)
  then have "row_record (features ! i) (labels ! i) = SerializeToString [ft, lt]"
    by (simp add: row_record_def encode_def)
  then show ?thesis
    by (simp add: getitem_def assms(1,2) ft lt db_key_constant)
qed

text \<open>
  On rows that all encode, the loop is one put per row, every one under the same key.
\<close>

lemma write_rows_ok:
  assumes "\<forall>i\<in>set idx. i < length features \<and> i < length labels
             \<and> encodes (features ! i) (labels ! i)"
  shows "write_rows features labels idx w =
     (None, foldl (\<lambda>w i. put ''train_%03d'' (row_record (features ! i) (labels ! i)) w) w idx)"
  using assms
proof (induction idx arbitrary: w)
  case Nil
  then show ?case by simp
next
  case (Cons i rest)
  then have i: "i < length features" "i < length labels" "encodes (features ! i) (labels ! i)"
    by simp_all
  from Cons.prems have "\<forall>j\<in>set rest. j < length features \<and> j < length labels
             \<and> encodes (features ! j) (labels ! j)"
    by simp
  from Cons.IH [OF this] show ?case
    by (simp add: write_rows_step [OF i] del: write_rows.simps)
qed

lemma write_db_ok:
  assumes "length labels = length features"
    and "\<forall>i<length features. encodes (features ! i) (labels ! i)"
  shows "write_db db_type db_name features labels fs =
     (None, del_db (del_transaction
        (foldl (\<lambda>w i. put ''train_%03d'' (row_record (features ! i) (labels ! i)) w)
           (new_transaction (create_db db_type db_name fs)) [0..<length features])))"
proof -
  have "\<forall>i\<in>set [0..<length features]. i < length features \<and> i < length labels
             \<and> encodes (features ! i) (labels ! i)"
    using assms by simp
  from write_rows_ok [OF this] show ?thesis
    by (simp add: write_db_def)
qed

lemma printed_valid: "valid_pair printed_feature 1"
  by (simp add: valid_pair_def printed_feature_def int32_ok_def)

lemma first_valid: "valid_pair first_feature 0"
  by (simp add: valid_pair_def first_feature_def int32_ok_def)

section \<open>The claims about the writer\<close>

text \<open>
  Claim C1. The keys one call of \<open>write_db\<close> generates and inserts are pairwise
  distinct. They are not: \<open>format\<close> finds no brace in \<open>'train_%03d'\<close> and returns the
  template as it is, whatever the row number. Here the writer runs on two rows: both
  puts carry the same key, and the store, a mapping, is left with that one key and the
  record of the second row.
\<close>

theorem write_db_keys_collide:
  "db_key 0 = Inr ''train_%03d'' \<and> db_key 1 = Inr ''train_%03d''
   \<and> map fst (put_calls (snd (write_db ''minidb'' ''iris_train.minidb''
                                 [first_feature, printed_feature] [0, 1] Map.empty)))
       = [''train_%03d'', ''train_%03d'']
   \<and> map_option dom
        (files (snd (write_db ''minidb'' ''iris_train.minidb''
                       [first_feature, printed_feature] [0, 1] Map.empty))
           ''iris_train.minidb'')
       = Some {''train_%03d''}
   \<and> map_option (\<lambda>m. m ''train_%03d'')
        (files (snd (write_db ''minidb'' ''iris_train.minidb''
                       [first_feature, printed_feature] [0, 1] Map.empty))
           ''iris_train.minidb'')
       = Some (Some (row_record printed_feature 1))"
proof -
  have "\<forall>i<length [first_feature, printed_feature].
          encodes ([first_feature, printed_feature] ! i) ([0, 1] ! i)"
    by (simp add: less_Suc_eq valid_pair_encodes first_valid printed_valid)
  from write_db_ok [OF _ this, of "''minidb''" "''iris_train.minidb''" Map.empty]
  show ?thesis
    by (simp add: db_key_constant upt_conv_Cons put_def new_transaction_def create_db_def
        del_transaction_def del_db_def)
qed

text \<open>
  Claim C2. For every valid pair (a non-empty one-dimensional float32 array and an
  integer label), encoding succeeds and decoding the bytes returns exactly the pair.
\<close>

theorem decode_encode_roundtrip:
  assumes "valid_pair feature label"
  shows "\<exists>bs. encode feature label = Inr bs \<and> decode bs = Inr (feature, label)"
proof -
  from assms have e: "encode feature label = Inr (row_record feature label)"
    by (intro encodes_record valid_pair_encodes)
  from assms obtain vs where "elems feature = Float32 vs"
    by (cases "elems feature") (simp_all add: valid_pair_def)
  with e have "decode (row_record feature label) = Inr (feature, label)"
    by (rule decode_encode)
  with e show ?thesis by blast
qed

theorem decode_encode_roundtrip_witness:
  "valid_pair printed_feature 1
   \<and> encode printed_feature 1 = Inr printed_bytes
   \<and> decode printed_bytes = Inr (printed_feature, 1)"
proof -
  have e: "encode printed_feature 1 = Inr printed_bytes"
    by code_simp
  from decode_encode_roundtrip [OF printed_valid] e printed_valid show ?thesis
    by auto
qed

section \<open>The claims about labels and split\<close>

text \<open>
  Claim C9. The label enumeration is the fixed table Iris-setosa to 0, Iris-versicolor
  to 1, Iris-virginica to 2, and the converter applied to any other string raises
  KeyError instead of producing a label.
\<close>

theorem label_converter_table:
  "label_converter ''Iris-setosa'' = Inr 0
   \<and> label_converter ''Iris-versicolor'' = Inr 1
   \<and> label_converter ''Iris-virginica'' = Inr 2
   \<and> (s \<notin> {''Iris-setosa'', ''Iris-versicolor'', ''Iris-virginica''}
        \<longrightarrow> label_converter s = Inl KeyError)"
  by (simp add: label_converter_def label_dict_def)

theorem label_converter_table_witness:
  "''iris-setosa'' \<notin> {''Iris-setosa'', ''Iris-versicolor'', ''Iris-virginica''}
   \<and> label_converter ''iris-setosa'' = Inl KeyError
   \<and> label_converter ''Iris-virginica'' = Inr 2"
proof -
  have h: "''iris-setosa'' \<notin> {''Iris-setosa'', ''Iris-versicolor'', ''Iris-virginica''}"
    by simp
  from label_converter_table [of "''iris-setosa''"] h show ?thesis
    by blast
qed

text \<open>
  Claim C10. The split indexes the feature matrix and the label vector with one
  shared permutation: every pair of the 100-row train split and of the 50-row test
  split is the feature and the label of one original row, the two splits take
  disjoint sets of original rows, and together they hold each of the 150 original
  rows exactly once.
\<close>

theorem split_shares_permutation:
  assumes "length features = 150" and "length labels = 150"
    and "is_permutation 150 random_index"
  shows "\<exists>sp. train_test_split random_index features labels = Inr sp
     \<and> length (train_rows sp) = 100 \<and> length (test_rows sp) = 50
     \<and> train_rows sp = map (\<lambda>i. (features ! i, labels ! i)) (take 100 random_index)
     \<and> test_rows sp = map (\<lambda>i. (features ! i, labels ! i)) (drop 100 random_index)
     \<and> distinct random_index
     \<and> set (take 100 random_index) \<inter> set (drop 100 random_index) = {}
     \<and> set (take 100 random_index) \<union> set (drop 100 random_index) = {0..<150}
     \<and> mset (train_rows sp) + mset (test_rows sp) = mset (zip features labels)"
proof -
  let ?pair = "\<lambda>i. (features ! i, labels ! i)"
  let ?fs = "map (\<lambda>i. features ! i) random_index"
  let ?ls = "map (\<lambda>i. labels ! i) random_index"
  let ?sp = "\<lparr>train_features = take 100 ?fs, train_labels = take 100 ?ls,
              test_features = drop 100 ?fs, test_labels = drop 100 ?ls\<rparr>"
  have len: "length random_index = 150"
    using assms(3) by (rule is_permutation_length)
  have rng: "set random_index = {0..<150}"
    using assms(3) by (rule is_permutation_set)
  have dist: "distinct random_index"
    using assms(3) by (rule is_permutation_distinct)
  have f_ok: "index_rows features random_index = Inr ?fs"
    by (rule index_rows_ok) (simp add: rng assms(1))
  have l_ok: "index_rows labels random_index = Inr ?ls"
    by (rule index_rows_ok) (simp add: rng assms(2))
  have run: "train_test_split random_index features labels = Inr ?sp"
    by (simp add: train_test_split_def f_ok l_ok)
  have tr: "train_rows ?sp = map ?pair (take 100 random_index)"
    by (simp add: train_rows_def zip_map_nth take_map flip: take_zip)
  have te: "test_rows ?sp = map ?pair (drop 100 random_index)"
    by (simp add: test_rows_def zip_map_nth drop_map flip: drop_zip)
  have disj: "set (take 100 random_index) \<inter> set (drop 100 random_index) = {}"
    using dist by (metis append_take_drop_id distinct_append)
  have cover: "set (take 100 random_index) \<union> set (drop 100 random_index) = {0..<150}"
    using rng by (metis append_take_drop_id set_append)
  have "mset (train_rows ?sp) + mset (test_rows ?sp)
      = mset (map ?pair (take 100 random_index @ drop 100 random_index))"
    by (simp only: tr te map_append mset_append)
  also have "\<dots> = mset (zip features labels)"
    using mset_index_pairs [OF assms(3) assms(1) assms(2)] by simp
  finally have all: "mset (train_rows ?sp) + mset (test_rows ?sp) = mset (zip features labels)" .
  have "length (train_rows ?sp) = 100" "length (test_rows ?sp) = 50"
    by (simp_all add: tr te len)
  with run tr te dist disj cover all show ?thesis
    by blast
qed

theorem split_shares_permutation_witness:
  "length [0..<150] = 150 \<and> length (map (\<lambda>i. i mod 3) [0..<150]) = 150
   \<and> is_permutation 150 (rev [0..<150])
   \<and> (\<exists>sp. train_test_split (rev [0..<150]) [0..<150] (map (\<lambda>i. i mod 3) [0..<150]) = Inr sp
        \<and> length (train_rows sp) = 100 \<and> length (test_rows sp) = 50
        \<and> mset (train_rows sp) + mset (test_rows sp)
            = mset (zip [0..<150] (map (\<lambda>i. i mod 3) [0..<150])))"
proof -
  have h1: "length [0..<150] = 150" by simp
  have h2: "length (map (\<lambda>i. i mod 3) [0..<150]) = 150" by simp
  have h3: "is_permutation 150 (rev [0..<150])" by (simp add: is_permutation_def)
  from split_shares_permutation [OF h1 h2 h3] h1 h2 h3 show ?thesis
    by blast
qed

end
